theory Spec2Isabelle
  imports Complex_Main "HOL-Library.AList"
begin

section \<open>Python values as they arrive from the two services\<close>

text \<open>
  The script \<^verbatim>\<open>notion.py\<close> works on the decoded JSON that the workspace service returns:
  \<^verbatim>\<open>None\<close>, booleans, numbers, strings, lists and dictionaries with string keys.
  A dictionary is kept as an association list read with \<^const>\<open>map_of\<close>.
  Numbers are rationals: the script never computes with one, it only tests truth value and
  uses them as dictionary keys, where \<^verbatim>\<open>1\<close> and \<^verbatim>\<open>1.0\<close> agree.
\<close>

datatype json =
    JNull
  | JBool bool
  | JNum rat
  | JStr string
  | JList "json list"
  | JObj "(string \<times> json) list"

text \<open>Truth value of a Python object, as \<^verbatim>\<open>if parent_id:\<close> and \<^verbatim>\<open>if not response.get('has_more')\<close> read it.\<close>

fun truthy :: "json \<Rightarrow> bool" where
  "truthy JNull = False"
| "truthy (JBool b) = b"
| "truthy (JNum n) = (n \<noteq> 0)"
| "truthy (JStr s) = (s \<noteq> [])"
| "truthy (JList xs) = (xs \<noteq> [])"
| "truthy (JObj kvs) = (kvs \<noteq> [])"

text \<open>
  A dictionary key must be hashable: lists and dictionaries raise \<^verbatim>\<open>TypeError\<close> (\<open>None\<close> here).
  \<^verbatim>\<open>True\<close> and \<^verbatim>\<open>False\<close> are the same keys as \<^verbatim>\<open>1\<close> and \<^verbatim>\<open>0\<close>.
\<close>

fun py_hash_key :: "json \<Rightarrow> json option" where
  "py_hash_key (JList xs) = None"
| "py_hash_key (JObj kvs) = None"
| "py_hash_key (JBool b) = Some (JNum (if b then 1 else 0))"
| "py_hash_key v = Some v"

text \<open>\<^verbatim>\<open>needle in s\<close> on two strings: \<open>needle\<close> occurs in \<open>s\<close> as a contiguous run.\<close>

fun starts_with :: "string \<Rightarrow> string \<Rightarrow> bool" where
  "starts_with [] s = True"
| "starts_with (c # cs) [] = False"
| "starts_with (c # cs) (d # ds) = (c = d \<and> starts_with cs ds)"

fun py_substring :: "string \<Rightarrow> string \<Rightarrow> bool" where
  "py_substring needle [] = (needle = [])"
| "py_substring needle (d # ds) = (starts_with needle (d # ds) \<or> py_substring needle ds)"

text \<open>
  \<^verbatim>\<open>'key' in v\<close>: key membership on a dictionary, element membership on a list, substring on a
  string, \<^verbatim>\<open>TypeError\<close> on anything else.
\<close>

fun py_in :: "string \<Rightarrow> json \<Rightarrow> bool option" where
  "py_in key (JObj kvs) = Some (map_of kvs key \<noteq> None)"
| "py_in key (JList xs) = Some (JStr key \<in> set xs)"
| "py_in key (JStr s) = Some (py_substring key s)"
| "py_in key v = None"

text \<open>\<^verbatim>\<open>v['key']\<close>: \<^verbatim>\<open>KeyError\<close> on a dictionary without the key, \<^verbatim>\<open>TypeError\<close> on anything else.\<close>

fun py_getitem :: "json \<Rightarrow> string \<Rightarrow> json option" where
  "py_getitem (JObj kvs) key = map_of kvs key"
| "py_getitem v key = None"

text \<open>\<^verbatim>\<open>v.get('key', dflt)\<close>: only a dictionary has the method, anything else raises \<^verbatim>\<open>AttributeError\<close>.\<close>

fun py_get :: "json \<Rightarrow> string \<Rightarrow> json \<Rightarrow> json option" where
  "py_get (JObj kvs) key dflt = Some (case map_of kvs key of None \<Rightarrow> dflt | Some v \<Rightarrow> v)"
| "py_get v key dflt = None"

text \<open>
  \<^verbatim>\<open>v[0]\<close>: the first element of a list, the first character of a string, \<^verbatim>\<open>IndexError\<close>
  when empty; a dictionary decoded from JSON has no key \<^verbatim>\<open>0\<close> (\<^verbatim>\<open>KeyError\<close>), and the
  other values are not subscriptable.
\<close>

fun py_index0 :: "json \<Rightarrow> json option" where
  "py_index0 (JList (x # xs)) = Some x"
| "py_index0 (JStr (c # cs)) = Some (JStr [c])"
| "py_index0 v = None"

section \<open>Title extraction\<close>

definition Untitled :: json where
  "Untitled = JStr ''Untitled''"

text \<open>\<^verbatim>\<open>isinstance(title_info, list) and title_info\<close>\<close>

fun is_nonempty_list :: "json \<Rightarrow> bool" where
  "is_nonempty_list (JList (x # xs)) = True"
| "is_nonempty_list v = False"

text \<open>\<^verbatim>\<open>e.get('text', {}).get('content', 'Untitled')\<close>\<close>

definition text_content :: "json \<Rightarrow> json option" where
  "text_content e =
     (case py_get e ''text'' (JObj []) of
        None \<Rightarrow> None
      | Some t \<Rightarrow> py_get t ''content'' Untitled)"

text \<open>
  The body of the \<^verbatim>\<open>try\<close> block of \<^verbatim>\<open>get_page_title\<close>; \<open>None\<close> stands for any exception
  raised inside it.
\<close>

definition title_body :: "json \<Rightarrow> json option" where
  "title_body page =
     (case py_in ''properties'' page of
        None \<Rightarrow> None
      | Some False \<Rightarrow> Some Untitled
      | Some True \<Rightarrow>
         (case py_getitem page ''properties'' of
            None \<Rightarrow> None
          | Some props \<Rightarrow>
             (case py_in ''title'' props of
                None \<Rightarrow> None
              | Some False \<Rightarrow> Some Untitled
              | Some True \<Rightarrow>
                 (case py_getitem props ''title'' of
                    None \<Rightarrow> None
                  | Some title_info \<Rightarrow>
                     if is_nonempty_list title_info
                     then (case py_index0 title_info of
                             None \<Rightarrow> None
                           | Some e \<Rightarrow> text_content e)
                     else (case py_get title_info ''title'' (JList [JObj []]) of
                             None \<Rightarrow> None
                           | Some l \<Rightarrow>
                              (case py_index0 l of
                                 None \<Rightarrow> None
                               | Some e \<Rightarrow> text_content e))))))"

text \<open>\<^verbatim>\<open>except Exception: return 'Untitled'\<close>\<close>

definition get_page_title :: "json \<Rightarrow> json" where
  "get_page_title page = (case title_body page of None \<Rightarrow> Untitled | Some v \<Rightarrow> v)"

text \<open>
  The shapes the title field is documented to have. A rich-text element is a dictionary
  whose \<^verbatim>\<open>text\<close> entry is a dictionary whose \<^verbatim>\<open>content\<close> entry is the string \<open>s\<close>.
\<close>

definition rich_text_item :: "json \<Rightarrow> string \<Rightarrow> bool" where
  "rich_text_item e s =
     (case py_getitem e ''text'' of
        None \<Rightarrow> False
      | Some t \<Rightarrow> py_getitem t ''content'' = Some (JStr s))"

fun rich_text_list :: "json \<Rightarrow> string \<Rightarrow> bool" where
  "rich_text_list (JList (e # es)) s = rich_text_item e s"
| "rich_text_list v s = False"

definition nested_title :: "json \<Rightarrow> string \<Rightarrow> bool" where
  "nested_title ti s =
     (case py_getitem ti ''title'' of None \<Rightarrow> False | Some l \<Rightarrow> rich_text_list l s)"

definition page_with_title :: "json \<Rightarrow> json \<Rightarrow> bool" where
  "page_with_title page ti =
     (case py_getitem page ''properties'' of
        None \<Rightarrow> False
      | Some props \<Rightarrow> py_getitem props ''title'' = Some ti)"

definition title_missing :: "json \<Rightarrow> bool" where
  "title_missing page =
     (case page of
        JObj kvs \<Rightarrow>
         (case map_of kvs ''properties'' of
            None \<Rightarrow> True
          | Some (JObj ps) \<Rightarrow> map_of ps ''title'' = None
          | Some v \<Rightarrow> False)
      | v \<Rightarrow> False)"


section \<open>Errors\<close>

text \<open>
  Every exception the script can see is a value: \<open>PyError\<close> is any exception raised by a
  Python operation on a value of the wrong shape (\<^verbatim>\<open>KeyError\<close>, \<^verbatim>\<open>TypeError\<close>,
  \<^verbatim>\<open>AttributeError\<close>, \<^verbatim>\<open>IndexError\<close>), \<open>ApiError\<close> any exception raised by a call to one
  of the two services, and the other three are the exceptions the script raises itself, with
  the name it puts in the message and the exception it wraps.
\<close>

datatype err =
    PyError
  | ApiError
  | FailedFolder string err
  | FailedBackup string err
  | FailedFetch err

section \<open>The tree builder\<close>

text \<open>
  An entry of \<^verbatim>\<open>page_dict\<close>. The Python \<^verbatim>\<open>children\<close> list holds references to other
  entries of the same dictionary; every entry is the value of exactly one key, so a
  reference is kept as that key and the dictionary is the store the references point into.
\<close>

record info =
  info_page :: json
  info_children :: "json list"
  info_parent_id :: json

text \<open>
  A Python dictionary keeps its keys in the order of their first insertion and overwrites
  the value of a key that is already there: \<^const>\<open>AList.update\<close>.
\<close>

type_synonym page_dict = "(json \<times> info) list"

text \<open>One turn of the inner \<^verbatim>\<open>for page in response['results']\<close> loop.\<close>

definition add_page :: "json \<Rightarrow> page_dict \<Rightarrow> err + page_dict" where
  "add_page p d =
     (case py_get p ''parent'' (JObj []) of
        None \<Rightarrow> Inl PyError
      | Some par \<Rightarrow>
         (case py_get par ''page_id'' JNull of
            None \<Rightarrow> Inl PyError
          | Some pid \<Rightarrow>
             (case py_getitem p ''id'' of
                None \<Rightarrow> Inl PyError
              | Some i \<Rightarrow>
                 (case py_hash_key i of
                    None \<Rightarrow> Inl PyError
                  | Some k \<Rightarrow>
                     Inr (AList.update k
                            \<lparr>info_page = p, info_children = [], info_parent_id = pid\<rparr> d)))))"

fun add_pages :: "json list \<Rightarrow> page_dict \<Rightarrow> err + page_dict" where
  "add_pages [] d = Inr d"
| "add_pages (p # ps) d =
     (case add_page p d of Inl e \<Rightarrow> Inl e | Inr d' \<Rightarrow> add_pages ps d')"

text \<open>
  One answer of the paginated search. \<open>has_more\<close> is what \<^verbatim>\<open>response.get('has_more')\<close>
  returns (\<open>JNull\<close> when the field is absent), \<open>next_cursor\<close> is \<open>None\<close> when
  \<^verbatim>\<open>response['next_cursor']\<close> raises \<^verbatim>\<open>KeyError\<close>.
\<close>

record response =
  results :: "json list"
  has_more :: json
  next_cursor :: "json option"

datatype reply = Raised | Reply response

text \<open>
  The \<^verbatim>\<open>while True\<close> loop of the first pass. The service's answers to the successive
  \<^verbatim>\<open>search\<close> calls are given as a list; the loop may ask for more answers than the list
  holds, and then it has not returned: the result is \<open>None\<close>.
\<close>

fun fetch_loop :: "response \<Rightarrow> reply list \<Rightarrow> page_dict \<Rightarrow> (err + page_dict) option" where
  "fetch_loop resp rest d =
     (case add_pages (results resp) d of
        Inl e \<Rightarrow> Some (Inl e)
      | Inr d' \<Rightarrow>
         if \<not> truthy (has_more resp) then Some (Inr d')
         else (case next_cursor resp of
                 None \<Rightarrow> Some (Inl PyError)
               | Some c \<Rightarrow>
                  (case rest of
                     [] \<Rightarrow> None
                   | Raised # rest' \<Rightarrow> Some (Inl ApiError)
                   | Reply r # rest' \<Rightarrow> fetch_loop r rest' d')))"

text \<open>
  The second pass, \<^verbatim>\<open>for page_id, info in page_dict.items()\<close>. The items are those of the
  dictionary when the loop starts (the loop changes no key and no \<^verbatim>\<open>parent_id\<close>);
  \<^verbatim>\<open>parent_id in page_dict\<close> hashes the parent identifier.
\<close>

definition append_child :: "json \<Rightarrow> info \<Rightarrow> info" where
  "append_child k i = i\<lparr>info_children := info_children i @ [k]\<rparr>"

fun build_hierarchy ::
  "(json \<times> info) list \<Rightarrow> page_dict \<Rightarrow> json list \<Rightarrow> err + (page_dict \<times> json list)" where
  "build_hierarchy [] d root_pages = Inr (d, root_pages)"
| "build_hierarchy ((page_id, i) # items) d root_pages =
     (if truthy (info_parent_id i) then
        (case py_hash_key (info_parent_id i) of
           None \<Rightarrow> Inl PyError
         | Some pk \<Rightarrow>
            if map_of d pk \<noteq> None
            then build_hierarchy items (AList.map_entry pk (append_child page_id) d) root_pages
            else build_hierarchy items d root_pages)
      else build_hierarchy items d (root_pages @ [page_id]))"

text \<open>
  \<^verbatim>\<open>get_all_pages\<close>: the returned \<^verbatim>\<open>root_pages\<close> are references into the dictionary, so the
  result is the dictionary together with the keys of the roots. Any exception is raised
  again as \<open>FailedFetch\<close>.
\<close>

definition get_all_pages :: "reply list \<Rightarrow> (err + (page_dict \<times> json list)) option" where
  "get_all_pages replies =
     (case replies of
        [] \<Rightarrow> None
      | Raised # rest \<Rightarrow> Some (Inl (FailedFetch ApiError))
      | Reply r # rest \<Rightarrow>
         (case fetch_loop r rest [] of
            None \<Rightarrow> None
          | Some (Inl e) \<Rightarrow> Some (Inl (FailedFetch e))
          | Some (Inr d) \<Rightarrow>
             (case build_hierarchy d d [] of
                Inl e \<Rightarrow> Some (Inl (FailedFetch e))
              | Inr res \<Rightarrow> Some (Inr res))))"

text \<open>The whole listing arriving in one answer.\<close>

definition one_reply :: "json list \<Rightarrow> reply list" where
  "one_reply recs = [Reply \<lparr>results = recs, has_more = JBool False, next_cursor = None\<rparr>]"

subsection \<open>The forest as a value\<close>

text \<open>
  A node of the forest with the references followed: the page and the child nodes. Following
  references needs a bound, since a dictionary may hold entries that are their own
  descendants; \<open>None\<close> when the bound is reached.
\<close>

datatype node = Node json "node list"

fun tree_of :: "nat \<Rightarrow> page_dict \<Rightarrow> json \<Rightarrow> node option" where
  "tree_of 0 d k = None"
| "tree_of (Suc n) d k =
     (case map_of d k of
        None \<Rightarrow> None
      | Some i \<Rightarrow>
         (case those (map (tree_of n d) (info_children i)) of
            None \<Rightarrow> None
          | Some cs \<Rightarrow> Some (Node (info_page i) cs)))"

definition forest_of :: "page_dict \<times> json list \<Rightarrow> node list option" where
  "forest_of res = those (map (tree_of (Suc (length (fst res))) (fst res)) (snd res))"

fun count_nodes :: "node \<Rightarrow> nat" and count_forest :: "node list \<Rightarrow> nat" where
  "count_nodes (Node p cs) = Suc (count_forest cs)"
| "count_forest [] = 0"
| "count_forest (n # ns) = count_nodes n + count_forest ns"

fun pages_of :: "node \<Rightarrow> json list" and pages_of_forest :: "node list \<Rightarrow> json list" where
  "pages_of (Node p cs) = p # pages_of_forest cs"
| "pages_of_forest [] = []"
| "pages_of_forest (n # ns) = pages_of n @ pages_of_forest ns"


section \<open>The storage service and the world the script acts on\<close>

record drive_file =
  file_id :: string
  file_name :: string
  file_mime :: string
  file_parents :: "string list"
  file_trashed :: bool
  file_body :: string

definition folder_mime :: string where
  "folder_mime = ''application/vnd.google-apps.folder''"

text \<open>The calls the script makes to the two services while mirroring, as the services see them.\<close>

datatype request =
    ListFiles string
  | CreateFolder string string
  | ListBlocks json
  | Upload string string string

text \<open>What is printed, one constructor for each \<^verbatim>\<open>print\<close> of the script.\<close>

datatype event =
    Starting
  | FoundRoots nat
  | Uploading string
  | ContentError string
  | ChildError err
  | BackedUp nat nat string
  | RootError nat err
  | Completed
  | SuccessCount nat
  | FailCount nat
  | BackupFolder string
  | BackupFailed err

text \<open>
  What the script does not decide. \<open>fails n r\<close>: the request \<open>r\<close>, made after \<open>n\<close> earlier
  requests, raises. \<open>drive_match q f\<close>: the storage service counts the file \<open>f\<close> among the
  answers to the query \<open>q\<close>. \<open>new_id\<close>: the identifier the storage service gives a new
  file. \<open>today\<close> and \<open>timestamp\<close>: \<^verbatim>\<open>datetime.now()\<close> formatted as \<^verbatim>\<open>%Y%m%d\<close> and as
  \<^verbatim>\<open>%Y%m%d_%H%M%S\<close>, read after \<open>n\<close> requests. \<open>blocks_json\<close>: the serialised block list of
  a page. \<open>py_str\<close>: how an f-string renders a title that is not a string.
\<close>

record env =
  fails :: "nat \<Rightarrow> request \<Rightarrow> bool"
  drive_match :: "string \<Rightarrow> drive_file \<Rightarrow> bool"
  new_id :: "drive_file list \<Rightarrow> string"
  today :: "nat \<Rightarrow> string"
  timestamp :: "nat \<Rightarrow> string"
  blocks_json :: "json \<Rightarrow> string"
  py_str :: "json \<Rightarrow> string"
  root_folder_id :: string

record world =
  drive :: "drive_file list"
  requests :: "request list"
  out :: "event list"
  folder_cache :: "json \<rightharpoonup> string"

definition clock :: "world \<Rightarrow> nat" where
  "clock w = length (requests w)"

definition send :: "request \<Rightarrow> world \<Rightarrow> world" where
  "send r w = w\<lparr>requests := requests w @ [r]\<rparr>"

definition emit :: "event \<Rightarrow> world \<Rightarrow> world" where
  "emit e w = w\<lparr>out := out w @ [e]\<rparr>"

definition store :: "drive_file \<Rightarrow> world \<Rightarrow> world" where
  "store f w = w\<lparr>drive := drive w @ [f]\<rparr>"

definition fmt :: "env \<Rightarrow> json \<Rightarrow> string" where
  "fmt env v = (case v of JStr s \<Rightarrow> s | _ \<Rightarrow> py_str env v)"

section \<open>Finding or creating a folder\<close>

text \<open>The query string of \<^verbatim>\<open>create_folder\<close>, character for character.\<close>

definition folder_query :: "string \<Rightarrow> string \<Rightarrow> string" where
  "folder_query folder_name parent_id =
     ''name = '' @ [CHR 0x27] @ folder_name @ [CHR 0x27] @ '' and '' @ [CHR 0x27] @ parent_id
       @ [CHR 0x27] @ '' in parents and mimeType = '' @ [CHR 0x27] @ folder_mime @ [CHR 0x27]
       @ '' and trashed = false''"

definition new_folder :: "string \<Rightarrow> string \<Rightarrow> string \<Rightarrow> drive_file" where
  "new_folder fid folder_name parent_id =
     \<lparr>file_id = fid, file_name = folder_name, file_mime = folder_mime,
      file_parents = [parent_id], file_trashed = False, file_body = []\<rparr>"

definition create_folder :: "env \<Rightarrow> string \<Rightarrow> string \<Rightarrow> world \<Rightarrow> (err + string) \<times> world" where
  "create_folder env folder_name parent_id w =
     (if fails env (clock w) (ListFiles (folder_query folder_name parent_id))
      then (Inl (FailedFolder folder_name ApiError),
            send (ListFiles (folder_query folder_name parent_id)) w)
      else
        (case filter (drive_match env (folder_query folder_name parent_id)) (drive w) of
           f # fs \<Rightarrow> (Inr (file_id f), send (ListFiles (folder_query folder_name parent_id)) w)
         | [] \<Rightarrow>
            if fails env (Suc (clock w)) (CreateFolder folder_name parent_id)
            then (Inl (FailedFolder folder_name ApiError),
                  send (CreateFolder folder_name parent_id)
                    (send (ListFiles (folder_query folder_name parent_id)) w))
            else (Inr (new_id env (drive w)),
                  store (new_folder (new_id env (drive w)) folder_name parent_id)
                    (send (CreateFolder folder_name parent_id)
                      (send (ListFiles (folder_query folder_name parent_id)) w)))))"

section \<open>Mirroring a node\<close>

text \<open>The inner \<^verbatim>\<open>try\<close> block of \<^verbatim>\<open>backup_page\<close> with its handler: fetch the blocks, upload them.\<close>

definition content_name :: "env \<Rightarrow> json \<Rightarrow> nat \<Rightarrow> string" where
  "content_name env title n = fmt env title @ ''_content_'' @ timestamp env n @ ''.json''"

definition new_artifact :: "string \<Rightarrow> string \<Rightarrow> string \<Rightarrow> string \<Rightarrow> drive_file" where
  "new_artifact fid nm folder_id body =
     \<lparr>file_id = fid, file_name = nm, file_mime = ''application/json'',
      file_parents = [folder_id], file_trashed = False, file_body = body\<rparr>"

definition backup_content :: "env \<Rightarrow> json \<Rightarrow> json \<Rightarrow> string \<Rightarrow> world \<Rightarrow> world" where
  "backup_content env page_id title folder_id w =
     (if fails env (clock w) (ListBlocks page_id)
      then emit (ContentError (fmt env title)) (send (ListBlocks page_id) w)
      else
        (let up = Upload (content_name env title (Suc (clock w))) folder_id
                    (blocks_json env page_id);
             w1 = emit (Uploading (fmt env title)) (send (ListBlocks page_id) w)
         in if fails env (Suc (clock w)) up
            then emit (ContentError (fmt env title)) (send up w1)
            else store (new_artifact (new_id env (drive w1))
                          (content_name env title (Suc (clock w))) folder_id
                          (blocks_json env page_id))
                   (send up w1)))"

definition folder_name_of :: "env \<Rightarrow> json \<Rightarrow> nat \<Rightarrow> string" where
  "folder_name_of env pg n = fmt env (get_page_title pg) @ ''_'' @ today env n"

definition cache_folder :: "json \<Rightarrow> string \<Rightarrow> world \<Rightarrow> world" where
  "cache_folder k folder_id w = w\<lparr>folder_cache := (folder_cache w)(k \<mapsto> folder_id)\<rparr>"

text \<open>
  \<^verbatim>\<open>backup_page\<close>. \<^verbatim>\<open>page['id']\<close> is read before the outer \<^verbatim>\<open>try\<close>, so its exception is not
  wrapped; everything raised inside the outer \<^verbatim>\<open>try\<close> is raised again as \<open>FailedBackup\<close>.
  \<open>backup_children\<close> is the \<^verbatim>\<open>for child_info in page_info['children']\<close> loop with its handler.
\<close>

fun backup_page :: "env \<Rightarrow> node \<Rightarrow> string \<Rightarrow> world \<Rightarrow> (err + string) \<times> world"
and backup_children :: "env \<Rightarrow> node list \<Rightarrow> string \<Rightarrow> world \<Rightarrow> world" where
  "backup_page env (Node pg kids) parent_folder_id w =
     (case py_getitem pg ''id'' of
        None \<Rightarrow> (Inl PyError, w)
      | Some page_id \<Rightarrow>
         (case create_folder env (folder_name_of env pg (clock w)) parent_folder_id w of
            (Inl e, w1) \<Rightarrow> (Inl (FailedBackup (fmt env (get_page_title pg)) e), w1)
          | (Inr folder_id, w1) \<Rightarrow>
             (case py_hash_key page_id of
                None \<Rightarrow> (Inl (FailedBackup (fmt env (get_page_title pg)) PyError), w1)
              | Some k \<Rightarrow>
                 (Inr (folder_name_of env pg (clock w)),
                  backup_children env kids folder_id
                    (backup_content env page_id (get_page_title pg) folder_id
                       (cache_folder k folder_id w1))))))"
| "backup_children env [] folder_id w = w"
| "backup_children env (child_info # rest) folder_id w =
     (case backup_page env child_info folder_id w of
        (Inl e, w1) \<Rightarrow> backup_children env rest folder_id (emit (ChildError e) w1)
      | (Inr nm, w1) \<Rightarrow> backup_children env rest folder_id w1)"

section \<open>The driver\<close>

text \<open>
  The \<^verbatim>\<open>for i, page_info in enumerate(root_pages, 1)\<close> loop of \<^verbatim>\<open>run_backup\<close>: \<open>n_roots\<close> is
  \<^verbatim>\<open>len(root_pages)\<close>, the triple holds \<^verbatim>\<open>successful_backups\<close>, \<^verbatim>\<open>failed_backups\<close>
  and the world.
\<close>

fun backup_roots ::
  "env \<Rightarrow> node list \<Rightarrow> string \<Rightarrow> nat \<Rightarrow> nat \<Rightarrow> nat \<times> nat \<times> world \<Rightarrow> nat \<times> nat \<times> world" where
  "backup_roots env [] backup_folder_id n_roots i acc = acc"
| "backup_roots env (page_info # rest) backup_folder_id n_roots i (ok, bad, w) =
     (case backup_page env page_info backup_folder_id w of
        (Inr nm, w1) \<Rightarrow>
          backup_roots env rest backup_folder_id n_roots (Suc i)
            (Suc ok, bad, emit (BackedUp i n_roots nm) w1)
      | (Inl e, w1) \<Rightarrow>
          backup_roots env rest backup_folder_id n_roots (Suc i)
            (ok, Suc bad, emit (RootError i e) w1))"

definition backup_folder_name :: "env \<Rightarrow> nat \<Rightarrow> string" where
  "backup_folder_name env n = ''Notion_Backup_'' @ timestamp env n"

definition summary :: "nat \<Rightarrow> nat \<Rightarrow> string \<Rightarrow> event list" where
  "summary ok bad nm = [Completed, SuccessCount ok, FailCount bad, BackupFolder nm]"

text \<open>
  \<^verbatim>\<open>run_backup\<close> from the point where \<^verbatim>\<open>self.get_all_pages()\<close> has returned or raised;
  \<open>fetched\<close> is that outcome, the forest with its references followed.
\<close>

definition run_backup_from :: "env \<Rightarrow> err + node list \<Rightarrow> world \<Rightarrow> world" where
  "run_backup_from env fetched w =
     (case fetched of
        Inl e \<Rightarrow> emit (BackupFailed e) (emit Starting w)
      | Inr root_pages \<Rightarrow>
         (case create_folder env (backup_folder_name env (clock w)) (root_folder_id env)
                 (emit (FoundRoots (length root_pages)) (emit Starting w)) of
            (Inl e, w1) \<Rightarrow> emit (BackupFailed e) w1
          | (Inr backup_folder_id, w1) \<Rightarrow>
             (case backup_roots env root_pages backup_folder_id (length root_pages) 1
                     (0, 0, w1) of
                (ok, bad, w2) \<Rightarrow>
                  w2\<lparr>out := out w2 @ summary ok bad (backup_folder_name env (clock w))\<rparr>)))"

text \<open>
  \<^verbatim>\<open>run_backup\<close>: \<open>None\<close> when the listing has not returned within the given replies.
\<close>

definition run_backup :: "env \<Rightarrow> reply list \<Rightarrow> world \<Rightarrow> world option" where
  "run_backup env replies w =
     (case get_all_pages replies of
        None \<Rightarrow> None
      | Some (Inl e) \<Rightarrow> Some (run_backup_from env (Inl e) w)
      | Some (Inr res) \<Rightarrow>
         (case forest_of res of
            None \<Rightarrow> None
          | Some forest \<Rightarrow> Some (run_backup_from env (Inr forest) w)))"


section \<open>A storage service that reads the query, and sample inputs\<close>

text \<open>
  A storage service for running the script on concrete inputs. It reads a query of the
  form that \<^const>\<open>folder_query\<close> builds, taking each quoted value up to the next quote
  character, and answers with the folders that are not trashed, carry that name and have that
  parent; it matches nothing on a query it cannot read.
\<close>

fun strip_prefix :: "string \<Rightarrow> string \<Rightarrow> string option" where
  "strip_prefix [] s = Some s"
| "strip_prefix (c # cs) [] = None"
| "strip_prefix (c # cs) (d # ds) = (if c = d then strip_prefix cs ds else None)"

fun until_quote :: "string \<Rightarrow> (string \<times> string) option" where
  "until_quote [] = None"
| "until_quote (c # cs) =
     (if c = CHR 0x27 then Some ([], cs)
      else (case until_quote cs of None \<Rightarrow> None | Some (a, b) \<Rightarrow> Some (c # a, b)))"

definition query_tail :: string where
  "query_tail = '' in parents and mimeType = '' @ [CHR 0x27] @ folder_mime @ [CHR 0x27]
       @ '' and trashed = false''"

definition parse_folder_query :: "string \<Rightarrow> (string \<times> string) option" where
  "parse_folder_query q =
     (case strip_prefix (''name = '' @ [CHR 0x27]) q of
        None \<Rightarrow> None
      | Some r1 \<Rightarrow>
         (case until_quote r1 of
            None \<Rightarrow> None
          | Some (nm, r2) \<Rightarrow>
             (case strip_prefix ('' and '' @ [CHR 0x27]) r2 of
                None \<Rightarrow> None
              | Some r3 \<Rightarrow>
                 (case until_quote r3 of
                    None \<Rightarrow> None
                  | Some (par, r4) \<Rightarrow> if r4 = query_tail then Some (nm, par) else None))))"

text \<open>
  The folders the destination container collaborator is specified to find: exact match on
  name, parent and type, soft-deleted ones left out.
\<close>

definition is_live_folder :: "string \<Rightarrow> string \<Rightarrow> drive_file \<Rightarrow> bool" where
  "is_live_folder nm par f =
     (file_name f = nm \<and> par \<in> set (file_parents f) \<and> file_mime f = folder_mime
      \<and> \<not> file_trashed f)"

definition plain_match :: "string \<Rightarrow> drive_file \<Rightarrow> bool" where
  "plain_match q f =
     (case parse_folder_query q of None \<Rightarrow> False | Some (nm, par) \<Rightarrow> is_live_folder nm par f)"

text \<open>The service answers the query built for \<open>nm\<close> and \<open>par\<close> with exactly those folders.\<close>

definition exact_match :: "env \<Rightarrow> string \<Rightarrow> string \<Rightarrow> bool" where
  "exact_match env nm par =
     (\<forall>f. drive_match env (folder_query nm par) f = is_live_folder nm par f)"

definition live_folders :: "string \<Rightarrow> string \<Rightarrow> world \<Rightarrow> drive_file list" where
  "live_folders nm par w = filter (is_live_folder nm par) (drive w)"

text \<open>An environment in which no call fails, and one in which every content call fails.\<close>

definition quiet_env :: env where
  "quiet_env =
     \<lparr>fails = (\<lambda>n r. False), drive_match = plain_match,
      new_id = (\<lambda>fs. ''id'' @ replicate (length fs) (CHR ''x'')),
      today = (\<lambda>n. ''20240101''), timestamp = (\<lambda>n. ''20240101_120000''),
      blocks_json = (\<lambda>k. ''{}''), py_str = (\<lambda>v. ''?''), root_folder_id = ''root''\<rparr>"

fun content_request :: "request \<Rightarrow> bool" where
  "content_request (ListBlocks k) = True"
| "content_request (Upload nm par body) = True"
| "content_request r = False"

fun folder_request :: "request \<Rightarrow> bool" where
  "folder_request (ListFiles q) = True"
| "folder_request (CreateFolder nm par) = True"
| "folder_request r = False"

definition no_content_env :: env where
  "no_content_env = quiet_env\<lparr>fails := (\<lambda>n r. content_request r)\<rparr>"

definition no_folder_env :: env where
  "no_folder_env = quiet_env\<lparr>fails := (\<lambda>n r. folder_request r)\<rparr>"

definition empty_world :: world where
  "empty_world = \<lparr>drive = [], requests = [], out = [], folder_cache = Map.empty\<rparr>"

definition title_prop :: "string \<Rightarrow> json" where
  "title_prop s =
     JObj [(''title'',
            JObj [(''id'', JStr ''title''), (''type'', JStr ''title''),
                  (''title'', JList [JObj [(''type'', JStr ''text''),
                                           (''text'', JObj [(''content'', JStr s)])]])])]"

definition rec_A :: json where
  "rec_A = JObj [(''id'', JStr ''A''), (''properties'', title_prop ''Alpha'')]"

definition rec_B :: json where
  "rec_B = JObj [(''id'', JStr ''B''),
                 (''parent'', JObj [(''type'', JStr ''page_id''), (''page_id'', JStr ''A'')]),
                 (''properties'', title_prop ''Beta'')]"

definition rec_C :: json where
  "rec_C = JObj [(''id'', JStr ''C''),
                 (''parent'', JObj [(''type'', JStr ''page_id''),
                                    (''page_id'', JStr ''missing-id'')]),
                 (''properties'', title_prop ''Gamma'')]"

definition is_folder :: "drive_file \<Rightarrow> bool" where
  "is_folder f = (file_mime f = folder_mime)"

definition folders_under :: "string \<Rightarrow> world \<Rightarrow> drive_file list" where
  "folders_under par w = filter (\<lambda>f. is_folder f \<and> par \<in> set (file_parents f)) (drive w)"

definition artifacts :: "world \<Rightarrow> drive_file list" where
  "artifacts w = filter (\<lambda>f. \<not> is_folder f) (drive w)"

definition rich_A :: json where
  "rich_A = JList [JObj [(''text'', JObj [(''content'', JStr ''Alpha'')])]]"

text \<open>
  The key under which the first pass stores a record, \<^verbatim>\<open>page['id']\<close> hashed, and the
  parent identifier it extracts, \<^verbatim>\<open>page.get('parent', {}).get('page_id')\<close>; \<open>None\<close> when the
  expression raises. They are the two things \<^const>\<open>add_page\<close> computes.
\<close>

definition page_key :: "json \<Rightarrow> json option" where
  "page_key p = (case py_getitem p ''id'' of None \<Rightarrow> None | Some i \<Rightarrow> py_hash_key i)"

definition page_parent :: "json \<Rightarrow> json option" where
  "page_parent p =
     (case py_get p ''parent'' (JObj []) of None \<Rightarrow> None | Some par \<Rightarrow> py_get par ''page_id'' JNull)"

definition fresh_info :: "json \<Rightarrow> json \<Rightarrow> info" where
  "fresh_info p pid = \<lparr>info_page = p, info_children = [], info_parent_id = pid\<rparr>"

text \<open>The records the first pass has seen when its loop ends, in the order it saw them.\<close>

fun fetched_records :: "response \<Rightarrow> reply list \<Rightarrow> json list" where
  "fetched_records resp rest =
     results resp @
       (if truthy (has_more resp)
        then (case rest of Reply r # rest' \<Rightarrow> fetched_records r rest' | _ \<Rightarrow> [])
        else [])"

text \<open>The two outcomes of the second pass for an entry: appended to the roots, appended to the children of \<open>k\<close>.\<close>

definition is_root_entry :: "json \<times> info \<Rightarrow> bool" where
  "is_root_entry e = (\<not> truthy (info_parent_id (snd e)))"

definition is_child_of :: "json \<Rightarrow> json \<times> info \<Rightarrow> bool" where
  "is_child_of k e =
     (truthy (info_parent_id (snd e)) \<and> py_hash_key (info_parent_id (snd e)) = Some k)"

text \<open>Sample listings: an identifier that occurs twice, and a page whose parent is the workspace.\<close>

definition rec_B_old :: json where
  "rec_B_old = JObj [(''id'', JStr ''B''), (''properties'', title_prop ''Old'')]"

definition rec_W :: json where
  "rec_W = JObj [(''id'', JStr ''W''),
                 (''parent'', JObj [(''type'', JStr ''workspace''), (''workspace'', JBool True)]),
                 (''properties'', title_prop ''Home'')]"

definition dup_response :: response where
  "dup_response = \<lparr>results = [rec_B_old, rec_A, rec_B], has_more = JBool False, next_cursor = None\<rparr>"

definition dup_dict :: page_dict where
  "dup_dict =
     [(JStr ''B'', \<lparr>info_page = rec_B, info_children = [], info_parent_id = JStr ''A''\<rparr>),
      (JStr ''A'', \<lparr>info_page = rec_A, info_children = [JStr ''B''], info_parent_id = JNull\<rparr>)]"

definition ws_response :: response where
  "ws_response = \<lparr>results = [rec_W, rec_B], has_more = JBool False, next_cursor = None\<rparr>"

definition ws_dict :: page_dict where
  "ws_dict =
     [(JStr ''W'', \<lparr>info_page = rec_W, info_children = [], info_parent_id = JNull\<rparr>),
      (JStr ''B'', \<lparr>info_page = rec_B, info_children = [], info_parent_id = JStr ''A''\<rparr>)]"

(*THEOREMS*)

section \<open>Title extraction never fails\<close>


lemma text_content_item:
  "rich_text_item e s \<Longrightarrow> text_content e = Some (JStr s)"
proof -
  assume "rich_text_item e s"
  then obtain t where t: "py_getitem e ''text'' = Some t"
    and c: "py_getitem t ''content'' = Some (JStr s)"
    by (auto simp: rich_text_item_def split: option.splits)
  from t obtain kvs where "e = JObj kvs" "map_of kvs ''text'' = Some t"
    by (cases e) auto
  moreover from c obtain ts where "t = JObj ts" "map_of ts ''content'' = Some (JStr s)"
    by (cases t) auto
  ultimately show ?thesis
    by (simp add: text_content_def)
qed

lemma title_body_with_title:
  assumes "page_with_title page ti"
  shows "title_body page =
     (if is_nonempty_list ti
      then (case py_index0 ti of None \<Rightarrow> None | Some e \<Rightarrow> text_content e)
      else (case py_get ti ''title'' (JList [JObj []]) of
              None \<Rightarrow> None
            | Some l \<Rightarrow> (case py_index0 l of None \<Rightarrow> None | Some e \<Rightarrow> text_content e)))"
proof -
  from assms obtain props where p: "py_getitem page ''properties'' = Some props"
    and t: "py_getitem props ''title'' = Some ti"
    by (auto simp: page_with_title_def split: option.splits)
  from p obtain kvs where page: "page = JObj kvs" and kv: "map_of kvs ''properties'' = Some props"
    by (cases page) auto
  from t obtain ps where props: "props = JObj ps" and pt: "map_of ps ''title'' = Some ti"
    by (cases props) auto
  show ?thesis
    unfolding title_body_def by (simp add: page kv props pt)
qed

text \<open>
  C6. \<^verbatim>\<open>get_page_title\<close> is a total function into Python values: every exception raised in
  its body is turned into the placeholder. On a page whose title field is a well-formed
  rich-text list, or the nested property form around one, it returns the string of the first
  element; on the empty mapping and on a page without the title field it returns the
  placeholder \<^verbatim>\<open>'Untitled'\<close>.
\<close>

theorem get_page_title_shapes:
  "(page_with_title page ti \<and> rich_text_list ti s \<longrightarrow> get_page_title page = JStr s) \<and>
   (page_with_title page ti \<and> nested_title ti s \<longrightarrow> get_page_title page = JStr s) \<and>
   get_page_title (JObj []) = Untitled \<and>
   (title_missing page \<longrightarrow> get_page_title page = Untitled) \<and>
   (title_body page = None \<longrightarrow> get_page_title page = Untitled)"
proof (intro conjI impI)
  assume a: "page_with_title page ti \<and> rich_text_list ti s"
  then obtain e es where ti: "ti = JList (e # es)" and e: "rich_text_item e s"
    by (auto elim: rich_text_list.elims)
  from a have "page_with_title page ti" by simp
  then show "get_page_title page = JStr s"
    by (simp add: get_page_title_def title_body_with_title ti text_content_item [OF e])
next
  assume a: "page_with_title page ti \<and> nested_title ti s"
  then obtain l where l: "py_getitem ti ''title'' = Some l" and r: "rich_text_list l s"
    by (auto simp: nested_title_def split: option.splits)
  from l obtain kvs where ti: "ti = JObj kvs" and kv: "map_of kvs ''title'' = Some l"
    by (cases ti) auto
  from r obtain e es where ll: "l = JList (e # es)" and e: "rich_text_item e s"
    by (auto elim: rich_text_list.elims)
  from a have "page_with_title page ti" by simp
  then show "get_page_title page = JStr s"
    by (simp add: get_page_title_def title_body_with_title ti kv ll text_content_item [OF e])
next
  show "get_page_title (JObj []) = Untitled"
    by (simp add: get_page_title_def title_body_def)
next
  assume m: "title_missing page"
  then obtain kvs where page: "page = JObj kvs"
    by (cases page) (simp_all add: title_missing_def)
  show "get_page_title page = Untitled"
  proof (cases "map_of kvs ''properties''")
    case None
    then show ?thesis
      by (simp add: page get_page_title_def title_body_def)
  next
    case (Some props)
    with m page obtain ps where "props = JObj ps" "map_of ps ''title'' = None"
      by (cases props) (simp_all add: title_missing_def)
    with Some show ?thesis
      by (simp add: page get_page_title_def title_body_def)
  qed
next
  assume "title_body page = None"
  then show "get_page_title page = Untitled"
    by (simp add: get_page_title_def)
qed

theorem get_page_title_shapes_witness:
  "(page_with_title (JObj [(''properties'', JObj [(''title'', rich_A)])]) rich_A
      \<and> rich_text_list rich_A ''Alpha''
      \<and> get_page_title (JObj [(''properties'', JObj [(''title'', rich_A)])]) = JStr ''Alpha'')
   \<and> (page_with_title rec_A (JObj [(''id'', JStr ''title''), (''type'', JStr ''title''),
                  (''title'', JList [JObj [(''type'', JStr ''text''),
                                           (''text'', JObj [(''content'', JStr ''Alpha'')])]])])
      \<and> get_page_title rec_A = JStr ''Alpha'')
   \<and> (title_missing (JObj [(''id'', JStr ''A'')]) \<and> get_page_title (JObj [(''id'', JStr ''A'')]) = Untitled)
   \<and> (title_body JNull = None \<and> get_page_title JNull = Untitled)"
  using get_page_title_shapes [of "JObj [(''properties'', JObj [(''title'', rich_A)])]" rich_A "''Alpha''"]
    get_page_title_shapes [of rec_A "JObj [(''id'', JStr ''title''), (''type'', JStr ''title''),
                  (''title'', JList [JObj [(''type'', JStr ''text''),
                                           (''text'', JObj [(''content'', JStr ''Alpha'')])]])]" "''Alpha''"]
    get_page_title_shapes [of "JObj [(''id'', JStr ''A'')]"]
    get_page_title_shapes [of JNull]
  by (simp add: page_with_title_def rich_A_def rich_text_item_def nested_title_def title_missing_def rec_A_def title_prop_def title_body_def)

section \<open>The two passes of the tree builder\<close>

lemma is_root_entry_pair:
  "is_root_entry (k, i) \<longleftrightarrow> \<not> truthy (info_parent_id i)"
  by (simp add: is_root_entry_def)

lemma is_child_of_pair:
  "is_child_of k (c, i) \<longleftrightarrow>
     truthy (info_parent_id i) \<and> py_hash_key (info_parent_id i) = Some k"
  by (simp add: is_child_of_def)

lemma add_page_Inr:
  "add_page p d = Inr d' \<longleftrightarrow>
     (\<exists>k pid. page_key p = Some k \<and> page_parent p = Some pid
        \<and> d' = AList.update k (fresh_info p pid) d)"
  by (auto simp: add_page_def page_key_def page_parent_def fresh_info_def split: option.splits)

lemma add_pages_append:
  "add_pages (xs @ ys) d =
     (case add_pages xs d of Inl e \<Rightarrow> Inl e | Inr d1 \<Rightarrow> add_pages ys d1)"
  by (induction xs arbitrary: d) (auto split: sum.splits)

lemma add_pages_keep:
  "add_pages ps d = Inr d' \<Longrightarrow> \<forall>q\<in>set ps. page_key q \<noteq> Some k \<Longrightarrow> map_of d' k = map_of d k"
proof (induction ps arbitrary: d)
  case Nil
  then show ?case by simp
next
  case (Cons p ps)
  from Cons.prems(1) obtain d1 where 1: "add_page p d = Inr d1" and 2: "add_pages ps d1 = Inr d'"
    by (auto split: sum.splits)
  from 1 obtain k' pid where k': "page_key p = Some k'" and d1: "d1 = AList.update k' (fresh_info p pid) d"
    by (auto simp: add_page_Inr)
  from Cons.prems(2) k' have "k' \<noteq> k" by auto
  then have "map_of d1 k = map_of d k"
    by (simp add: d1 update_conv')
  moreover from Cons.IH [OF 2] Cons.prems(2) have "map_of d' k = map_of d1 k" by simp
  ultimately show ?case by simp
qed

lemma add_pages_distinct:
  "add_pages ps d = Inr d' \<Longrightarrow> distinct (map fst d) \<Longrightarrow> distinct (map fst d')"
proof (induction ps arbitrary: d)
  case Nil
  then show ?case by simp
next
  case (Cons p ps)
  from Cons.prems(1) obtain d1 where 1: "add_page p d = Inr d1" and 2: "add_pages ps d1 = Inr d'"
    by (auto split: sum.splits)
  from 1 Cons.prems(2) have "distinct (map fst d1)"
    by (auto simp: add_page_Inr distinct_update)
  with Cons.IH [OF 2] show ?case .
qed

lemma add_pages_last_wins:
  assumes "add_pages (before @ p # after) d = Inr d'"
    and "page_key p = Some k"
    and "\<forall>q\<in>set after. page_key q \<noteq> Some k"
  shows "\<exists>pid. page_parent p = Some pid \<and> map_of d' k = Some (fresh_info p pid)"
proof -
  from assms(1) obtain d1 d2 where 1: "add_pages before d = Inr d1"
    and 2: "add_page p d1 = Inr d2" and 3: "add_pages after d2 = Inr d'"
    by (auto simp: add_pages_append split: sum.splits)
  from 2 assms(2) obtain pid where pid: "page_parent p = Some pid"
    and d2: "d2 = AList.update k (fresh_info p pid) d1"
    by (auto simp: add_page_Inr)
  from add_pages_keep [OF 3 assms(3)] have "map_of d' k = Some (fresh_info p pid)"
    by (simp add: d2 update_conv')
  with pid show ?thesis by blast
qed

lemma fetch_loop_records:
  "fetch_loop resp rest d = Some (Inr d') \<Longrightarrow> add_pages (fetched_records resp rest) d = Inr d'"
proof (induction resp rest d rule: fetch_loop.induct)
  case (1 resp rest d)
  from "1.prems" obtain d1 where d1: "add_pages (results resp) d = Inr d1"
    by (auto split: sum.splits)
  show ?case
  proof (cases "truthy (has_more resp)")
    case False
    with "1.prems" d1 show ?thesis
      by (simp add: add_pages_append)
  next
    case True
    with "1.prems" d1 obtain c r rest' where c: "next_cursor resp = Some c"
      and rest: "rest = Reply r # rest'" and loop: "fetch_loop r rest' d1 = Some (Inr d')"
      by (auto split: option.splits list.splits reply.splits)
    from "1.IH" d1 True c rest loop
    have "add_pages (fetched_records r rest') d1 = Inr d'" by blast
    with True d1 rest show ?thesis
      by (simp add: add_pages_append)
  qed
qed

lemma build_hierarchy_roots:
  "build_hierarchy items d roots = Inr (d', roots') \<Longrightarrow>
     roots' = roots @ map fst (filter is_root_entry items)"
  by (induction items d roots rule: build_hierarchy.induct)
     (auto simp: is_root_entry_pair split: if_splits option.splits)

lemma map_of_append_child:
  "map_of (AList.map_entry pk (append_child c) d) k =
     (if k = pk then map_option (append_child c) (map_of d k) else map_of d k)"
  by (simp add: map_of_map_entry map_option_case)

lemma build_hierarchy_entries:
  "build_hierarchy items d roots = Inr (d', roots') \<Longrightarrow>
     map_of d' k =
       map_option (\<lambda>i. i\<lparr>info_children := info_children i @ map fst (filter (is_child_of k) items)\<rparr>)
         (map_of d k)"
proof (induction items d roots rule: build_hierarchy.induct)
  case (1 d root_pages)
  then show ?case
    by (cases "map_of d k") simp_all
next
  case (2 page_id i items d root_pages)
  show ?case
  proof (cases "truthy (info_parent_id i)")
    case False
    with "2.prems" "2.IH"(3) show ?thesis
      by (simp add: is_child_of_pair)
  next
    case True
    with "2.prems" obtain pk where pk: "py_hash_key (info_parent_id i) = Some pk"
      by (auto split: option.splits)
    show ?thesis
    proof (cases "map_of d pk")
      case None
      with True pk "2.prems" have "build_hierarchy items d root_pages = Inr (d', roots')"
        by simp
      from "2.IH"(2) [OF True pk _ this] None
      have "map_of d' k = map_option (\<lambda>i. i\<lparr>info_children := info_children i @ map fst (filter (is_child_of k) items)\<rparr>)
         (map_of d k)" by simp
      with None True pk show ?thesis
        by (cases "k = pk") (auto simp: is_child_of_pair)
    next
      case (Some j)
      with True pk "2.prems"
      have b: "build_hierarchy items (AList.map_entry pk (append_child page_id) d) root_pages = Inr (d', roots')"
        by simp
      from "2.IH"(1) [OF True pk _ this] Some
      have "map_of d' k = map_option (\<lambda>i. i\<lparr>info_children := info_children i @ map fst (filter (is_child_of k) items)\<rparr>)
         (map_of (AList.map_entry pk (append_child page_id) d) k)" by simp
      with Some True pk show ?thesis
        by (cases "k = pk"; cases "map_of d k") (auto simp: is_child_of_pair map_of_append_child append_child_def)
    qed
  qed
qed

lemma root_key_iff:
  assumes "distinct (map fst d)"
  shows "k \<in> set (map fst (filter is_root_entry d)) \<longleftrightarrow>
     (\<exists>i. map_of d k = Some i \<and> \<not> truthy (info_parent_id i))"
  using assms by (auto simp: is_root_entry_def image_iff) 

lemma get_all_pages_Inr:
  assumes "get_all_pages (Reply r # rest) = Some (Inr (d', roots))"
  obtains d where "add_pages (fetched_records r rest) [] = Inr d"
    and "distinct (map fst d)"
    and "build_hierarchy d d [] = Inr (d', roots)"
proof -
  from assms obtain d where f: "fetch_loop r rest [] = Some (Inr d)"
    and b: "build_hierarchy d d [] = Inr (d', roots)"
    by (auto simp: get_all_pages_def split: option.splits sum.splits)
  from fetch_loop_records [OF f] have a: "add_pages (fetched_records r rest) [] = Inr d" .
  from add_pages_distinct [OF a] have "distinct (map fst d)" by simp
  with a b that show ?thesis by blast
qed

lemma update_entry_cases:
  "e \<in> set (AList.update k v al) \<Longrightarrow> e = (k, v) \<or> e \<in> set al"
  by (induction al) (auto split: if_splits)

lemma add_pages_no_children:
  "add_pages ps d = Inr d' \<Longrightarrow> \<forall>e\<in>set d. info_children (snd e) = [] \<Longrightarrow>
     \<forall>e\<in>set d'. info_children (snd e) = []"
proof (induction ps arbitrary: d)
  case Nil
  then show ?case by simp
next
  case (Cons p ps)
  from Cons.prems(1) obtain d1 where 1: "add_page p d = Inr d1" and 2: "add_pages ps d1 = Inr d'"
    by (auto split: sum.splits)
  from 1 Cons.prems(2) have "\<forall>e\<in>set d1. info_children (snd e) = []"
    by (auto simp: add_page_Inr fresh_info_def dest!: update_entry_cases)
  with Cons.IH [OF 2] show ?case .
qed

lemma child_key_iff:
  assumes "distinct (map fst d)"
  shows "k \<in> set (map fst (filter (is_child_of pk) d)) \<longleftrightarrow>
     (\<exists>i. map_of d k = Some i \<and> truthy (info_parent_id i)
          \<and> py_hash_key (info_parent_id i) = Some pk)"
  using assms by (auto simp: is_child_of_def image_iff)

lemma last_record_entry:
  assumes run: "get_all_pages (Reply r # rest) = Some (Inr (d, roots))"
    and recs: "fetched_records r rest = before @ p # after"
    and key: "page_key p = Some k"
    and last: "\<forall>q\<in>set after. page_key q \<noteq> Some k"
  shows "\<exists>pid i. page_parent p = Some pid \<and> map_of d k = Some i
           \<and> info_page i = p \<and> info_parent_id i = pid
           \<and> (k \<in> set roots \<longleftrightarrow> \<not> truthy pid)
           \<and> (\<forall>pk j. map_of d pk = Some j \<longrightarrow>
                 (k \<in> set (info_children j) \<longleftrightarrow> truthy pid \<and> py_hash_key pid = Some pk))"
proof -
  from run obtain d0 where a: "add_pages (fetched_records r rest) [] = Inr d0"
    and dist: "distinct (map fst d0)" and b: "build_hierarchy d0 d0 [] = Inr (d, roots)"
    by (rule get_all_pages_Inr)
  from add_pages_last_wins [OF a [unfolded recs] key last]
  obtain pid where pid: "page_parent p = Some pid" and e0: "map_of d0 k = Some (fresh_info p pid)"
    by blast
  have entries: "map_of d k' =
       map_option (\<lambda>i. i\<lparr>info_children := info_children i @ map fst (filter (is_child_of k') d0)\<rparr>)
         (map_of d0 k')" for k'
    by (rule build_hierarchy_entries [OF b])
  define i where "i = (fresh_info p pid)\<lparr>info_children := map fst (filter (is_child_of k) d0)\<rparr>"
  have 1: "map_of d k = Some i"
    by (simp add: entries e0 i_def fresh_info_def)
  have 2: "info_page i = p" "info_parent_id i = pid"
    by (simp_all add: i_def fresh_info_def)
  from build_hierarchy_roots [OF b] have "roots = map fst (filter is_root_entry d0)" by simp
  then have 3: "k \<in> set roots \<longleftrightarrow> \<not> truthy pid"
    by (simp only: root_key_iff [OF dist]) (simp add: e0 fresh_info_def)
  have 4: "k \<in> set (info_children j) \<longleftrightarrow> truthy pid \<and> py_hash_key pid = Some pk"
    if j: "map_of d pk = Some j" for pk j
  proof -
    from j entries [of pk] obtain j0 where j0: "map_of d0 pk = Some j0"
      and jj: "j = j0\<lparr>info_children := info_children j0 @ map fst (filter (is_child_of pk) d0)\<rparr>"
      by (cases "map_of d0 pk") auto
    from j0 have "(pk, j0) \<in> set d0" by (rule map_of_SomeD)
    with add_pages_no_children [OF a] have "info_children j0 = []" by fastforce
    with jj have "info_children j = map fst (filter (is_child_of pk) d0)" by simp
    then show ?thesis
      by (simp only: child_key_iff [OF dist]) (simp add: e0 fresh_info_def)
  qed
  from pid 1 2 3 4 show ?thesis by blast
qed

text \<open>
  C7. When the listing holds several records with the same identifier, the dictionary built
  by the first pass holds the last of them: after \<^verbatim>\<open>get_all_pages\<close> has returned, the entry
  of the key \<open>k\<close> carries the page and the parent identifier of the last record \<open>p\<close> with
  that key, and the second pass has placed the entry by that parent identifier: among the
  roots exactly when it is empty or absent, among the children of the entry \<open>pk\<close> exactly
  when it is non-empty and hashes to \<open>pk\<close>.
\<close>

theorem duplicate_last_wins:
  assumes "get_all_pages (Reply r # rest) = Some (Inr (d, roots))"
    and "fetched_records r rest = before @ p # after"
    and "page_key p = Some k"
    and "\<forall>q\<in>set after. page_key q \<noteq> Some k"
  shows "\<exists>pid i. page_parent p = Some pid \<and> map_of d k = Some i
           \<and> info_page i = p \<and> info_parent_id i = pid
           \<and> (k \<in> set roots \<longleftrightarrow> \<not> truthy pid)
           \<and> (\<forall>pk j. map_of d pk = Some j \<longrightarrow>
                 (k \<in> set (info_children j) \<longleftrightarrow> truthy pid \<and> py_hash_key pid = Some pk))"
  using assms by (rule last_record_entry)

text \<open>
  C10. A record whose \<^verbatim>\<open>parent\<close> field is a dictionary without the key \<^verbatim>\<open>page_id\<close> (a page
  of the workspace or of a database) has the extracted parent identifier \<^verbatim>\<open>None\<close>, as every
  record without a \<^verbatim>\<open>parent\<close> field has, and \<^verbatim>\<open>get_all_pages\<close> places it in the root list.
\<close>

theorem parent_without_page_id_is_root:
  assumes "get_all_pages (Reply r # rest) = Some (Inr (d, roots))"
    and "fetched_records r rest = before @ p # after"
    and "page_key p = Some k"
    and "\<forall>q\<in>set after. page_key q \<noteq> Some k"
    and "py_getitem p ''parent'' = Some (JObj par)"
    and "map_of par ''page_id'' = None"
  shows "page_parent p = Some JNull
     \<and> (\<exists>i. map_of d k = Some i \<and> info_page i = p \<and> info_parent_id i = JNull)
     \<and> k \<in> set roots
     \<and> (\<forall>kvs. map_of kvs ''parent'' = None \<longrightarrow> page_parent (JObj kvs) = Some JNull)"
proof -
  from assms(5) obtain kvs where "p = JObj kvs" "map_of kvs ''parent'' = Some (JObj par)"
    by (cases p) auto
  with assms(6) have pp: "page_parent p = Some JNull"
    by (simp add: page_parent_def)
  from last_record_entry [OF assms(1-4)] pp
  have "(\<exists>i. map_of d k = Some i \<and> info_page i = p \<and> info_parent_id i = JNull) \<and> k \<in> set roots"
    by auto
  moreover have "\<forall>kvs. map_of kvs ''parent'' = None \<longrightarrow> page_parent (JObj kvs) = Some JNull"
    by (simp add: page_parent_def)
  ultimately show ?thesis using pp by blast
qed

theorem duplicate_last_wins_witness:
  "get_all_pages [Reply dup_response] = Some (Inr (dup_dict, [JStr ''A'']))
   \<and> (\<exists>pid i. page_parent rec_B = Some pid \<and> map_of dup_dict (JStr ''B'') = Some i
           \<and> info_page i = rec_B \<and> info_parent_id i = pid
           \<and> (JStr ''B'' \<in> set [JStr ''A''] \<longleftrightarrow> \<not> truthy pid)
           \<and> (\<forall>pk j. map_of dup_dict pk = Some j \<longrightarrow>
                 (JStr ''B'' \<in> set (info_children j) \<longleftrightarrow> truthy pid \<and> py_hash_key pid = Some pk)))"
proof -
  have 1: "get_all_pages (Reply dup_response # []) = Some (Inr (dup_dict, [JStr ''A'']))"
    by code_simp
  have 2: "fetched_records dup_response [] = [rec_B_old, rec_A] @ rec_B # []"
    by code_simp
  have 3: "page_key rec_B = Some (JStr ''B'')"
    by code_simp
  have 4: "\<forall>q\<in>set []. page_key q \<noteq> Some (JStr ''B'')"
    by simp
  from 1 duplicate_last_wins [OF 1 2 3 4] show ?thesis by blast
qed

theorem parent_without_page_id_is_root_witness:
  "get_all_pages [Reply ws_response] = Some (Inr (ws_dict, [JStr ''W'']))
   \<and> page_parent rec_W = Some JNull
   \<and> (\<exists>i. map_of ws_dict (JStr ''W'') = Some i \<and> info_page i = rec_W \<and> info_parent_id i = JNull)
   \<and> JStr ''W'' \<in> set [JStr ''W'']"
proof -
  have 1: "get_all_pages (Reply ws_response # []) = Some (Inr (ws_dict, [JStr ''W'']))"
    by code_simp
  have 2: "fetched_records ws_response [] = [] @ rec_W # [rec_B]"
    by code_simp
  have 3: "page_key rec_W = Some (JStr ''W'')"
    by code_simp
  have 4: "\<forall>q\<in>set [rec_B]. page_key q \<noteq> Some (JStr ''W'')"
    by code_simp
  have 5: "py_getitem rec_W ''parent'' = Some (JObj [(''type'', JStr ''workspace''), (''workspace'', JBool True)])"
    by code_simp
  have 6: "map_of [(''type'', JStr ''workspace''), (''workspace'', JBool True)] ''page_id'' = None"
    by simp
  from 1 parent_without_page_id_is_root [OF 1 2 3 4 5 6] show ?thesis by blast
qed

end
